theory Spec2Isabelle
  imports Complex_Main
begin

section \<open>Package.ts: the package entity of the private extension manager\<close>

text \<open>
  A shallow embedding of \<^verbatim>\<open>extension/src/Package.ts\<close>: the construction of a
  \<^verbatim>\<open>Package\<close> from a package manifest, the refresh of its installation snapshot
  (\<^verbatim>\<open>updateState\<close>), the getters derived from the snapshot (\<^verbatim>\<open>state\<close>,
  \<^verbatim>\<open>errorMessage\<close>, \<^verbatim>\<open>isUiExtension\<close>, \<^verbatim>\<open>isUpdateAvailable\<close>) and the
  module functions \<^verbatim>\<open>findVsixFile\<close>, \<^verbatim>\<open>isUiExtension\<close> and \<^verbatim>\<open>getExtensionKind\<close>.
  The registry reference, \<^verbatim>\<open>getContents\<close> and the file search are input/output and are
  left out: no operation below reads or writes them.
\<close>

subsection \<open>JavaScript values and strings\<close>

text \<open>
  The manifest is a \<^verbatim>\<open>Record<string, unknown>\<close> read from JSON. Its values are
  modelled by the JavaScript values JSON can produce, an absent property reading as
  \<^verbatim>\<open>undefined\<close>. An object is the list of its own properties in key order.
  Strings are lists of 8-bit characters, so the model covers the strings whose code
  units are below 256 (the Latin-1 range of UTF-16), and \<^verbatim>\<open>toLowerCase\<close> is the
  built-in on those strings.
\<close>

datatype jsval =
    JUndefined
  | JNull
  | JBoolean bool
  | JNumber rat
  | JString string
  | JArray "jsval list"
  | JObject "(string \<times> jsval) list"

type_synonym manifest = "(string \<times> jsval) list"

definition js_get :: "(string \<times> jsval) list \<Rightarrow> string \<Rightarrow> jsval" where
  "js_get obj k = (case map_of obj k of None \<Rightarrow> JUndefined | Some v \<Rightarrow> v)"

fun typeof :: "jsval \<Rightarrow> string" where
  "typeof JUndefined = ''undefined''"
| "typeof JNull = ''object''"
| "typeof (JBoolean b) = ''boolean''"
| "typeof (JNumber r) = ''number''"
| "typeof (JString s) = ''string''"
| "typeof (JArray xs) = ''object''"
| "typeof (JObject kvs) = ''object''"

text \<open>
  The operator \<^verbatim>\<open>in\<close>, for a key that is neither an array index, nor
  \<^verbatim>\<open>length\<close>, nor a property of \<^verbatim>\<open>Object.prototype\<close> (the source asks for
  \<^verbatim>\<open>'vscode'\<close> only), on a value that is an object.
\<close>

fun js_in :: "string \<Rightarrow> jsval \<Rightarrow> bool" where
  "js_in k (JObject kvs) = (map_of kvs k \<noteq> None)"
| "js_in k v = False"

text \<open>Truthiness, as \<^verbatim>\<open>if (x)\<close>, \<^verbatim>\<open>!x\<close> and \<^verbatim>\<open>x && y\<close> read a value.\<close>

fun truthy :: "jsval \<Rightarrow> bool" where
  "truthy JUndefined = False"
| "truthy JNull = False"
| "truthy (JBoolean b) = b"
| "truthy (JNumber r) = (r \<noteq> 0)"
| "truthy (JString s) = (s \<noteq> [])"
| "truthy (JArray xs) = True"
| "truthy (JObject kvs) = True"

text \<open>Truthiness of a field of type \<^verbatim>\<open>string | undefined\<close> or \<^verbatim>\<open>string | null\<close>.\<close>

fun truthy_string :: "string option \<Rightarrow> bool" where
  "truthy_string None = False"
| "truthy_string (Some s) = (s \<noteq> [])"

text \<open>\<^verbatim>\<open>a ?? b\<close>: the right operand only when the left one is null or undefined.\<close>

fun nullish_or :: "'a option \<Rightarrow> 'a \<Rightarrow> 'a" where
  "nullish_or None d = d"
| "nullish_or (Some x) d = x"

text \<open>
  \<^verbatim>\<open>String.prototype.toLowerCase\<close> on code units below 256. The upper-case letters
  there are A to Z (65 to 90) and U+00C0 to U+00DE (192 to 222) without the
  multiplication sign U+00D7 (215); each has its lower-case letter 32 code units above.
  Every other code unit of the range is left as it is, and no conversion in the range
  depends on the neighbouring characters, so the string is converted unit by unit.
\<close>

definition toLowerCase_char :: "char \<Rightarrow> char" where
  "toLowerCase_char c =
     (if (65 \<le> (of_char c :: nat) \<and> (of_char c :: nat) \<le> 90)
         \<or> (192 \<le> (of_char c :: nat) \<and> (of_char c :: nat) \<le> 222
             \<and> (of_char c :: nat) \<noteq> 215)
      then char_of ((of_char c :: nat) + 32) else c)"

definition toLowerCase :: "string \<Rightarrow> string" where
  "toLowerCase s = map toLowerCase_char s"

definition endsWith :: "string \<Rightarrow> string \<Rightarrow> bool" where
  "endsWith s suffix =
     (length suffix \<le> length s \<and> drop (length s - length suffix) s = suffix)"

text \<open>
  \<^verbatim>\<open>a < b\<close> on two strings: the order of the code units, a proper prefix first.
\<close>

fun js_string_less :: "string \<Rightarrow> string \<Rightarrow> bool" where
  "js_string_less [] [] = False"
| "js_string_less [] (y # ys) = True"
| "js_string_less (x # xs) [] = False"
| "js_string_less (x # xs) (y # ys) =
     (if (of_char x :: nat) < of_char y then True
      else if (of_char y :: nat) < of_char x then False
      else js_string_less xs ys)"

subsection \<open>Versions\<close>

text \<open>
  \<^verbatim>\<open>SemVer\<close> is the class of the \<^verbatim>\<open>semver\<close> package: the numeric components, the
  pre-release identifiers, and the field \<^verbatim>\<open>version\<close> holding the formatted string
  \<^verbatim>\<open>major.minor.patch[-prerelease]\<close>, which is what \<^verbatim>\<open>toString()\<close> returns.
\<close>

datatype prerelease_id = Numeric nat | Alphanumeric string

record SemVer =
  major :: nat
  minor :: nat
  patch :: nat
  prerelease :: "prerelease_id list"
  version_string :: string

definition toString :: "SemVer \<Rightarrow> string" where
  "toString v = version_string v"

text \<open>\<^verbatim>\<open>new SemVer('0.0.0')\<close>.\<close>

definition SemVer_0_0_0 :: SemVer where
  "SemVer_0_0_0 =
     \<lparr>major = 0, minor = 0, patch = 0, prerelease = [], version_string = ''0.0.0''\<rparr>"

text \<open>
  \<^verbatim>\<open>a > b\<close> on two \<^verbatim>\<open>SemVer\<close> objects. The relational operators convert an
  object operand to a primitive: \<^verbatim>\<open>valueOf()\<close> is the inherited one and returns the
  object itself, so \<^verbatim>\<open>toString()\<close> is taken, and the two strings are compared as
  strings.
\<close>

definition js_greater :: "SemVer \<Rightarrow> SemVer \<Rightarrow> bool" where
  "js_greater a b = js_string_less (toString b) (toString a)"

subsection \<open>The host and the imports: what the module reads from outside itself\<close>

text \<open>
  \<^verbatim>\<open>vscode.env.remoteName\<close>, the setting \<^verbatim>\<open>remote.extensionKind\<close> (its entries in the
  order of \<^verbatim>\<open>Object.keys\<close>), \<^verbatim>\<open>parse\<close> of the \<^verbatim>\<open>semver\<close> package (null on a string
  that is no version), the message bundle (key and default message to the message
  shown) and the helper \<^verbatim>\<open>isNonEmptyArray\<close> of \<^verbatim>\<open>./util\<close>, which is not among the
  sources, are parameters of the model.
\<close>

record Env =
  remoteName :: "string option"
  remote_extensionKind :: "(string \<times> string) list"
  parseVersion :: "string \<Rightarrow> SemVer option"
  localize :: "string \<Rightarrow> string \<Rightarrow> string"
  isNonEmptyArray :: "jsval \<Rightarrow> bool"

datatype ExtensionKind = UI | Workspace

text \<open>What \<^verbatim>\<open>getExtension\<close> resolves to on a hit, as far as \<^verbatim>\<open>updateState\<close> reads it.\<close>

record ExtensionInfo =
  ext_extensionKind :: "ExtensionKind option"
  ext_version :: SemVer

subsection \<open>The package\<close>

datatype PackageState = Available | Installed | InstalledRemote | UpdateAvailable | Invalid

datatype error = NotAnExtensionError string | TypeError string

record Package =
  name :: string
  extensionId :: string
  displayName :: string
  description :: string
  version :: SemVer
  vsixFile :: "string option"
  priv_publisher :: "string option"
  priv_isInstalled :: bool
  priv_isUiExtension :: bool
  priv_installedVersion :: "SemVer option"
  priv_installedExtensionKind :: "ExtensionKind option"

fun findVsixFile_loop :: "jsval list \<Rightarrow> string option" where
  "findVsixFile_loop [] = None"
| "findVsixFile_loop (JString file # files) =
     (if endsWith file ''.vsix'' then Some file else findVsixFile_loop files)"
| "findVsixFile_loop (v # files) = findVsixFile_loop files"

definition findVsixFile :: "manifest \<Rightarrow> string option" where
  "findVsixFile manifest =
     (case js_get manifest ''files'' of
        JArray files \<Rightarrow> findVsixFile_loop files
      | _ \<Rightarrow> None)"

definition getExtensionKind :: "Env \<Rightarrow> string \<Rightarrow> manifest \<Rightarrow> string option" where
  "getExtensionKind env extId manifest =
     (case find (\<lambda>key. toLowerCase key = extId) (map fst (remote_extensionKind env)) of
        Some key \<Rightarrow> map_of (remote_extensionKind env) key
      | None \<Rightarrow>
          (case js_get manifest ''extensionKind'' of
             JString kind \<Rightarrow> Some kind
           | _ \<Rightarrow> None))"

definition isUiExtension :: "Env \<Rightarrow> string \<Rightarrow> manifest \<Rightarrow> bool" where
  "isUiExtension env extId manifest =
     (if remoteName env = None then True
      else let extensionKind = getExtensionKind env extId manifest in
        if extensionKind = Some ''ui'' then True
        else if extensionKind = Some ''workspace'' then False
        else if truthy (js_get manifest ''main'') then False
        else if isNonEmptyArray env (js_get manifest ''extensionDependencies'')
                \<or> isNonEmptyArray env (js_get manifest ''extensionPack'') then False
        else True)"

text \<open>
  The constructor. \<^verbatim>\<open>this.publisher\<close> in the computation of the extension ID is the
  getter below, read when \<^verbatim>\<open>_publisher\<close> is already set.
\<close>

definition new_Package :: "Env \<Rightarrow> manifest \<Rightarrow> error + Package" where
  "new_Package env manifest =
     (if typeof (js_get manifest ''engines'') \<noteq> ''object''
         \<or> js_get manifest ''engines'' = JNull
         \<or> \<not> js_in ''vscode'' (js_get manifest ''engines'')
      then Inl (NotAnExtensionError ''Package is not an extension'')
      else case js_get manifest ''name'' of
        JString nm \<Rightarrow>
          (let pub = (case js_get manifest ''publisher'' of
                        JString s \<Rightarrow> Some s | _ \<Rightarrow> None);
               extId = toLowerCase
                 (nullish_or pub (localize env ''publisher.unknown'' ''Unknown'')
                    @ ''.'' @ nm)
           in Inr
             \<lparr>name = nm,
              extensionId = extId,
              displayName = (case js_get manifest ''displayName'' of
                               JString s \<Rightarrow> s | _ \<Rightarrow> nm),
              description = (case js_get manifest ''description'' of
                               JString s \<Rightarrow> s | _ \<Rightarrow> nm),
              version = (case js_get manifest ''version'' of
                           JString s \<Rightarrow> nullish_or (parseVersion env s) SemVer_0_0_0
                         | _ \<Rightarrow> SemVer_0_0_0),
              vsixFile = findVsixFile manifest,
              priv_publisher = pub,
              priv_isInstalled = False,
              priv_isUiExtension = isUiExtension env extId manifest,
              priv_installedVersion = None,
              priv_installedExtensionKind = None\<rparr>)
      | _ \<Rightarrow> Inl (TypeError ''Package name is mising''))"

text \<open>
  \<^verbatim>\<open>updateState\<close>, given what \<^verbatim>\<open>getExtension(this.extensionId)\<close> resolved to. The
  three assignments follow the only \<^verbatim>\<open>await\<close>, with no suspension point between
  them, so they are one step.
\<close>

definition updateState :: "Package \<Rightarrow> ExtensionInfo option \<Rightarrow> Package" where
  "updateState p extension =
     (case extension of
        Some e \<Rightarrow>
          p\<lparr>priv_isInstalled := True,
            priv_installedExtensionKind := ext_extensionKind e,
            priv_installedVersion := Some (ext_version e)\<rparr>
      | None \<Rightarrow>
          p\<lparr>priv_isInstalled := False,
            priv_installedExtensionKind := None,
            priv_installedVersion := None\<rparr>)"

definition publisher :: "Env \<Rightarrow> Package \<Rightarrow> string" where
  "publisher env p =
     nullish_or (priv_publisher p) (localize env ''publisher.unknown'' ''Unknown'')"

definition isInstalled :: "Package \<Rightarrow> bool" where
  "isInstalled p = priv_isInstalled p"

definition installedVersion :: "Package \<Rightarrow> SemVer option" where
  "installedVersion p = priv_installedVersion p"

text \<open>The getter \<^verbatim>\<open>isUiExtension\<close> of the class (the module function has the name).\<close>

definition get_isUiExtension :: "Package \<Rightarrow> bool" where
  "get_isUiExtension p =
     (case priv_installedExtensionKind p of
        Some kind \<Rightarrow> kind = UI
      | None \<Rightarrow> priv_isUiExtension p)"

definition isUpdateAvailable :: "Package \<Rightarrow> bool" where
  "isUpdateAvailable p =
     (case installedVersion p of
        None \<Rightarrow> False
      | Some installed \<Rightarrow> js_greater (version p) installed)"

definition state :: "Package \<Rightarrow> PackageState" where
  "state p =
     (if truthy_string (priv_publisher p) \<and> truthy_string (vsixFile p) then
        (if isUpdateAvailable p then UpdateAvailable
         else if isInstalled p then
           (if get_isUiExtension p then Installed else InstalledRemote)
         else Available)
      else Invalid)"

definition msg_missing_publisher :: string where
  \<open>msg_missing_publisher = ''Manifest is missing "publisher" field.''\<close>

definition msg_missing_vsix :: string where
  \<open>msg_missing_vsix = ''Manifest is missing .vsix file in "files" field.''\<close>

definition errorMessage :: "Env \<Rightarrow> Package \<Rightarrow> string" where
  "errorMessage env p =
     (if \<not> truthy_string (priv_publisher p)
      then localize env ''manifest.missing.publisher'' msg_missing_publisher
      else if \<not> truthy_string (vsixFile p)
      then localize env ''manifest.missing.vsix'' msg_missing_vsix
      else [])"

subsection \<open>The order of versions in the words of the specification\<close>

text \<open>
  The specification orders versions by semantic-version precedence: major, then minor,
  then patch, then the pre-release identifiers (a version with a pre-release precedes
  the same version without one; numeric identifiers compare as numbers and precede
  alphanumeric ones, which compare in ASCII order; a longer list follows its prefix).
  This definition follows those words, not the source, and is what the source's
  comparison is held against.
\<close>

fun prerelease_id_less :: "prerelease_id \<Rightarrow> prerelease_id \<Rightarrow> bool" where
  "prerelease_id_less (Numeric a) (Numeric b) = (a < b)"
| "prerelease_id_less (Numeric a) (Alphanumeric b) = True"
| "prerelease_id_less (Alphanumeric a) (Numeric b) = False"
| "prerelease_id_less (Alphanumeric a) (Alphanumeric b) = js_string_less a b"

fun prerelease_list_less :: "prerelease_id list \<Rightarrow> prerelease_id list \<Rightarrow> bool" where
  "prerelease_list_less [] [] = False"
| "prerelease_list_less [] (y # ys) = True"
| "prerelease_list_less (x # xs) [] = False"
| "prerelease_list_less (x # xs) (y # ys) =
     (if prerelease_id_less x y then True
      else if prerelease_id_less y x then False
      else prerelease_list_less xs ys)"

definition prerelease_less :: "prerelease_id list \<Rightarrow> prerelease_id list \<Rightarrow> bool" where
  "prerelease_less a b =
     (if a = [] then False
      else if b = [] then True
      else prerelease_list_less a b)"

definition spec_version_less :: "SemVer \<Rightarrow> SemVer \<Rightarrow> bool" where
  "spec_version_less a b =
     (if major a \<noteq> major b then major a < major b
      else if minor a \<noteq> minor b then minor a < minor b
      else if patch a \<noteq> patch b then patch a < patch b
      else prerelease_less (prerelease a) (prerelease b))"

subsection \<open>The helper of \<^verbatim>\<open>./util\<close>\<close>

text \<open>
  Modelled from the spec: \<^verbatim>\<open>isNonEmptyArray\<close> of \<^verbatim>\<open>./util\<close>, which is not among the
  sources. The spec calls it a presence-of-nonempty-sequence check, not a truthiness
  check, under which a zero-length sequence counts as absent. It is the helper of the
  example sessions below.
\<close>

fun isNonEmptyArray_spec :: "jsval \<Rightarrow> bool" where
  "isNonEmptyArray_spec (JArray xs) = (xs \<noteq> [])"
| "isNonEmptyArray_spec v = False"

subsection \<open>Example inputs\<close>

definition semver_1_9_0 :: SemVer where
  "semver_1_9_0 =
     \<lparr>major = 1, minor = 9, patch = 0, prerelease = [], version_string = ''1.9.0''\<rparr>"

definition semver_1_10_0 :: SemVer where
  "semver_1_10_0 =
     \<lparr>major = 1, minor = 10, patch = 0, prerelease = [], version_string = ''1.10.0''\<rparr>"

text \<open>
  A local session with an empty \<^verbatim>\<open>remote.extensionKind\<close> setting and the default
  messages; the parser is given on the two version strings the examples use.
\<close>

definition example_parse :: "string \<Rightarrow> SemVer option" where
  "example_parse s =
     (if s = ''1.9.0'' then Some semver_1_9_0
      else if s = ''1.10.0'' then Some semver_1_10_0
      else None)"

definition local_env :: Env where
  "local_env =
     \<lparr>remoteName = None, remote_extensionKind = [],
      parseVersion = example_parse, localize = (\<lambda>key message. message),
      isNonEmptyArray = isNonEmptyArray_spec\<rparr>"

text \<open>A remote session whose setting forces \<^verbatim>\<open>Acme.Demo\<close> to the workspace.\<close>

definition remote_env :: Env where
  "remote_env =
     \<lparr>remoteName = Some ''ssh-remote'',
      remote_extensionKind = [(''Acme.Demo'', ''workspace'')],
      parseVersion = example_parse, localize = (\<lambda>key message. message),
      isNonEmptyArray = isNonEmptyArray_spec\<rparr>"

text \<open>A remote session with no override.\<close>

definition plain_remote_env :: Env where
  "plain_remote_env =
     \<lparr>remoteName = Some ''ssh-remote'', remote_extensionKind = [],
      parseVersion = example_parse, localize = (\<lambda>key message. message),
      isNonEmptyArray = isNonEmptyArray_spec\<rparr>"

definition engines_vscode :: jsval where
  "engines_vscode = JObject [(''vscode'', JString ''^1.40.0'')]"

definition demo_manifest :: manifest where
  "demo_manifest =
     [(''name'', JString ''demo''),
      (''publisher'', JString ''Acme''),
      (''version'', JString ''1.10.0''),
      (''engines'', engines_vscode),
      (''files'', JArray [JString ''README.md'', JString ''demo.vsix''])]"

definition bad_version_manifest :: manifest where
  "bad_version_manifest =
     [(''name'', JString ''demo''),
      (''version'', JString ''not-a-version''),
      (''engines'', engines_vscode)]"

definition bare_manifest :: manifest where
  "bare_manifest = [(''name'', JString ''demo''), (''engines'', engines_vscode)]"



definition empty_publisher_manifest :: manifest where
  "empty_publisher_manifest =
     [(''name'', JString ''Demo''),
      (''publisher'', JString []),
      (''engines'', engines_vscode),
      (''files'', JArray [JString ''demo.vsix''])]"

definition no_vsix_manifest :: manifest where
  "no_vsix_manifest =
     [(''name'', JString ''demo''),
      (''publisher'', JString ''Acme''),
      (''engines'', engines_vscode),
      (''files'', JArray [JString ''README.md'', JNumber 1, JString ''vsix''])]"

definition older_manifest :: manifest where
  "older_manifest =
     [(''name'', JString ''demo''),
      (''publisher'', JString ''Acme''),
      (''version'', JString ''1.9.0''),
      (''engines'', engines_vscode),
      (''files'', JArray [JString ''demo.vsix''])]"

definition installed_1_9_0 :: ExtensionInfo where
  "installed_1_9_0 = \<lparr>ext_extensionKind = Some UI, ext_version = semver_1_9_0\<rparr>"

definition installed_1_10_0 :: ExtensionInfo where
  "installed_1_10_0 = \<lparr>ext_extensionKind = Some Workspace, ext_version = semver_1_10_0\<rparr>"

definition ui_kind_manifest :: manifest where
  "ui_kind_manifest = [(''extensionKind'', JString ''ui'')]"

definition workspace_kind_manifest :: manifest where
  "workspace_kind_manifest = [(''extensionKind'', JString ''workspace'')]"

definition main_manifest :: manifest where
  "main_manifest = [(''main'', JString ''./out/extension.js'')]"

definition empty_main_manifest :: manifest where
  "empty_main_manifest = [(''main'', JString [])]"

definition empty_lists_manifest :: manifest where
  "empty_lists_manifest =
     [(''extensionDependencies'', JArray []), (''extensionPack'', JArray [])]"



definition ecole_remote_env :: Env where
  "ecole_remote_env =
     \<lparr>remoteName = Some ''ssh-remote'',
      remote_extensionKind =
        [(CHR 0xC9 # ''cole.demo'', ''ui''), (CHR 0xE9 # ''cole.demo'', ''workspace'')],
      parseVersion = example_parse, localize = (\<lambda>key message. message),
      isNonEmptyArray = isNonEmptyArray_spec\<rparr>"

section \<open>Properties\<close>

subsection \<open>Auxiliary facts\<close>

lemma toLowerCase_append: "toLowerCase (a @ b) = toLowerCase a @ toLowerCase b"
  by (simp add: toLowerCase_def)

lemma toLowerCase_char_idem: "toLowerCase_char (toLowerCase_char c) = toLowerCase_char c"
  by (simp add: toLowerCase_char_def)

lemma toLowerCase_idem: "toLowerCase (toLowerCase s) = toLowerCase s"
  by (simp add: toLowerCase_def toLowerCase_char_idem)

text \<open>
  Sample conversions outside ASCII: the capital letters E acute, thorn and A grave go
  to their small letters; the multiplication sign, sharp s and y diaeresis stay.
\<close>

lemma toLowerCase_Latin1:
  "toLowerCase (CHR 0xC9 # ''COLE'') = CHR 0xE9 # ''cole''"
  "toLowerCase (CHR 0xE9 # ''cole'') = CHR 0xE9 # ''cole''"
  "toLowerCase (CHR 0xC9 # ''cole.demo'') = CHR 0xE9 # ''cole.demo''"
  "toLowerCase (CHR 0xE9 # ''cole.demo'') = CHR 0xE9 # ''cole.demo''"
  "toLowerCase [CHR 0xDE, CHR 0xC0, CHR 0xD7, CHR 0xDF, CHR 0xFF]
     = [CHR 0xFE, CHR 0xE0, CHR 0xD7, CHR 0xDF, CHR 0xFF]"
  by code_simp+

lemma js_string_less_irrefl: "\<not> js_string_less s s"
  by (induction s) simp_all

lemma findVsixFile_loop_Some:
  "findVsixFile_loop files = Some f \<Longrightarrow> JString f \<in> set files \<and> endsWith f ''.vsix''"
  by (induction files rule: findVsixFile_loop.induct) (auto split: if_splits)

lemma findVsixFile_loop_None:
  "findVsixFile_loop files = None \<longleftrightarrow>
     (\<forall>s. JString s \<in> set files \<longrightarrow> \<not> endsWith s ''.vsix'')"
  by (induction files rule: findVsixFile_loop.induct) auto

lemma findVsixFile_None:
  assumes "\<forall>files s. js_get m ''files'' = JArray files \<longrightarrow> JString s \<in> set files
             \<longrightarrow> \<not> endsWith s ''.vsix''"
  shows "findVsixFile m = None"
  using assms unfolding findVsixFile_def
  by (cases "js_get m ''files''") (simp_all add: findVsixFile_loop_None)

text \<open>The first matching key of the setting, and the value stored under it.\<close>

lemma first_match:
  assumes "cfg = pre @ (k, v) # post" and "P k" and "\<forall>k'. k' \<in> fst ` set pre \<longrightarrow> \<not> P k'"
  shows "find P (map fst cfg) = Some k" and "map_of cfg k = Some v"
proof -
  show "find P (map fst cfg) = Some k"
    using assms by (induction pre arbitrary: cfg) auto
  have "k \<notin> fst ` set pre" using assms(2,3) by blast
  then show "map_of cfg k = Some v"
    unfolding assms(1) by (induction pre) auto
qed

lemma no_match:
  assumes "\<forall>k. k \<in> fst ` set cfg \<longrightarrow> \<not> P k"
  shows "find P (map fst cfg) = None"
  using assms by (induction cfg) auto

lemma gate_iff:
  "(typeof (js_get m ''engines'') \<noteq> ''object'' \<or> js_get m ''engines'' = JNull
      \<or> \<not> js_in ''vscode'' (js_get m ''engines''))
   \<longleftrightarrow> \<not> (\<exists>kvs v. js_get m ''engines'' = JObject kvs \<and> map_of kvs ''vscode'' = Some v)"
  by (cases "js_get m ''engines''") auto

text \<open>The three outcomes of the constructor, by the two checks it makes.\<close>

lemma new_Package_cases:
  "new_Package env m =
     (if \<not> (\<exists>kvs v. js_get m ''engines'' = JObject kvs \<and> map_of kvs ''vscode'' = Some v)
      then Inl (NotAnExtensionError ''Package is not an extension'')
      else if \<not> (\<exists>nm. js_get m ''name'' = JString nm)
      then Inl (TypeError ''Package name is mising'')
      else Inr (projr (new_Package env m)))"
proof (cases "\<exists>kvs v. js_get m ''engines'' = JObject kvs \<and> map_of kvs ''vscode'' = Some v")
  case False
  then show ?thesis using gate_iff[of m] unfolding new_Package_def by simp
next
  case True
  then have g: "\<not> (typeof (js_get m ''engines'') \<noteq> ''object''
      \<or> js_get m ''engines'' = JNull
      \<or> \<not> js_in ''vscode'' (js_get m ''engines''))"
    using gate_iff[of m] by simp
  show ?thesis
  proof (cases "js_get m ''name''")
    case (JString nm)
    then show ?thesis using True g unfolding new_Package_def Let_def by simp
  qed (use True g in \<open>simp_all add: new_Package_def\<close>)
qed

lemma new_Package_ok:
  assumes "js_get m ''engines'' = JObject kvs" and "map_of kvs ''vscode'' = Some v"
    and "js_get m ''name'' = JString nm"
  shows "\<exists>p. new_Package env m = Inr p"
  using assms unfolding new_Package_def Let_def by simp

text \<open>The fields of a constructed package, read off the manifest.\<close>

lemma new_Package_fields:
  assumes "new_Package env m = Inr p"
  shows "js_get m ''name'' = JString (name p)"
    and "priv_publisher p =
           (case js_get m ''publisher'' of JString s \<Rightarrow> Some s | _ \<Rightarrow> None)"
    and "vsixFile p = findVsixFile m"
    and "extensionId p =
           toLowerCase (nullish_or (priv_publisher p)
             (localize env ''publisher.unknown'' ''Unknown'') @ ''.'' @ name p)"
    and "version p =
           (case js_get m ''version'' of
              JString s \<Rightarrow> nullish_or (parseVersion env s) SemVer_0_0_0
            | _ \<Rightarrow> SemVer_0_0_0)"
    and "priv_isInstalled p = False"
    and "priv_installedVersion p = None"
    and "priv_installedExtensionKind p = None"
    and "priv_isUiExtension p = isUiExtension env (extensionId p) m"
proof -
  obtain nm where nm: "js_get m ''name'' = JString nm"
    using assms unfolding new_Package_def
    by (cases "js_get m ''name''") (simp_all split: if_splits)
  define pub where
    "pub = (case js_get m ''publisher'' of JString s \<Rightarrow> Some s | _ \<Rightarrow> None)"
  define extId where
    "extId = toLowerCase
       (nullish_or pub (localize env ''publisher.unknown'' ''Unknown'') @ ''.'' @ nm)"
  have p: "p =
     \<lparr>name = nm, extensionId = extId,
      displayName = (case js_get m ''displayName'' of JString s \<Rightarrow> s | _ \<Rightarrow> nm),
      description = (case js_get m ''description'' of JString s \<Rightarrow> s | _ \<Rightarrow> nm),
      version = (case js_get m ''version'' of
                   JString s \<Rightarrow> nullish_or (parseVersion env s) SemVer_0_0_0
                 | _ \<Rightarrow> SemVer_0_0_0),
      vsixFile = findVsixFile m, priv_publisher = pub, priv_isInstalled = False,
      priv_isUiExtension = isUiExtension env extId m,
      priv_installedVersion = None, priv_installedExtensionKind = None\<rparr>"
    using assms nm unfolding new_Package_def Let_def pub_def extId_def
    by (simp split: if_splits)
  show "js_get m ''name'' = JString (name p)" using nm p by simp
  show "priv_publisher p =
          (case js_get m ''publisher'' of JString s \<Rightarrow> Some s | _ \<Rightarrow> None)"
    using p pub_def by simp
  show "vsixFile p = findVsixFile m" using p by simp
  show "extensionId p =
          toLowerCase (nullish_or (priv_publisher p)
            (localize env ''publisher.unknown'' ''Unknown'') @ ''.'' @ name p)"
    using p extId_def by simp
  show "version p =
          (case js_get m ''version'' of
             JString s \<Rightarrow> nullish_or (parseVersion env s) SemVer_0_0_0
           | _ \<Rightarrow> SemVer_0_0_0)"
    using p by simp
  show "priv_isInstalled p = False" using p by simp
  show "priv_installedVersion p = None" using p by simp
  show "priv_installedExtensionKind p = None" using p by simp
  show "priv_isUiExtension p = isUiExtension env (extensionId p) m" using p by simp
qed

text \<open>
  The extension ID is the lower-cased \<^verbatim>\<open>publisher.name\<close> of the getter, and
  lower-casing it again changes nothing: every identity the constructor hands to the
  host-kind classification is in lower case.
\<close>

lemma extensionId_publisher:
  assumes "new_Package env m = Inr p"
  shows "extensionId p = toLowerCase (publisher env p @ ''.'' @ name p)"
    and "toLowerCase (extensionId p) = extensionId p"
  using new_Package_fields(4)[OF assms] by (simp_all add: publisher_def toLowerCase_idem)

lemma updateState_fixed:
  "priv_publisher (updateState p r) = priv_publisher p"
  "vsixFile (updateState p r) = vsixFile p"
  by (cases r; simp add: updateState_def)+

lemma foldl_updateState_fixed:
  "priv_publisher (foldl updateState p rs) = priv_publisher p
   \<and> vsixFile (foldl updateState p rs) = vsixFile p"
  by (induction rs arbitrary: p) (simp_all add: updateState_fixed)

lemma demo_engines:
  "js_get demo_manifest ''engines'' = JObject [(''vscode'', JString ''^1.40.0'')]"
  "js_get bare_manifest ''engines'' = JObject [(''vscode'', JString ''^1.40.0'')]"
  "js_get empty_publisher_manifest ''engines'' = JObject [(''vscode'', JString ''^1.40.0'')]"
  "js_get no_vsix_manifest ''engines'' = JObject [(''vscode'', JString ''^1.40.0'')]"
  "js_get older_manifest ''engines'' = JObject [(''vscode'', JString ''^1.40.0'')]"
  by (simp_all add: js_get_def demo_manifest_def bare_manifest_def
      empty_publisher_manifest_def no_vsix_manifest_def older_manifest_def engines_vscode_def)

lemma vscode_key:
  "map_of [(''vscode'', JString ''^1.40.0'')] ''vscode'' = Some (JString ''^1.40.0'')"
  by simp

lemma example_packages:
  "\<exists>p. new_Package local_env demo_manifest = Inr p"
  "\<exists>p. new_Package local_env bare_manifest = Inr p"
  "\<exists>p. new_Package local_env empty_publisher_manifest = Inr p"
  "\<exists>p. new_Package local_env no_vsix_manifest = Inr p"
  "\<exists>p. new_Package local_env older_manifest = Inr p"
proof -
  show "\<exists>p. new_Package local_env demo_manifest = Inr p"
    by (rule new_Package_ok [OF demo_engines(1) vscode_key, where nm = "''demo''"])
      (simp add: js_get_def demo_manifest_def)
  show "\<exists>p. new_Package local_env bare_manifest = Inr p"
    by (rule new_Package_ok [OF demo_engines(2) vscode_key, where nm = "''demo''"])
      (simp add: js_get_def bare_manifest_def)
  show "\<exists>p. new_Package local_env empty_publisher_manifest = Inr p"
    by (rule new_Package_ok [OF demo_engines(3) vscode_key, where nm = "''Demo''"])
      (simp add: js_get_def empty_publisher_manifest_def)
  show "\<exists>p. new_Package local_env no_vsix_manifest = Inr p"
    by (rule new_Package_ok [OF demo_engines(4) vscode_key, where nm = "''demo''"])
      (simp add: js_get_def no_vsix_manifest_def)
  show "\<exists>p. new_Package local_env older_manifest = Inr p"
    by (rule new_Package_ok [OF demo_engines(5) vscode_key, where nm = "''demo''"])
      (simp add: js_get_def older_manifest_def)
qed

subsection \<open>Construction\<close>

text \<open>
  C5. Construction fails with the not-an-extension error exactly when the manifest has
  no object-valued \<^verbatim>\<open>engines\<close> field holding the key \<^verbatim>\<open>vscode\<close>; it fails with the
  other error kind (a \<^verbatim>\<open>TypeError\<close>) exactly when that check passes and \<^verbatim>\<open>name\<close> is no
  string; and it succeeds exactly when both checks pass, whatever the other fields are.
\<close>

theorem construction_outcome:
  "((\<exists>msg. new_Package env m = Inl (NotAnExtensionError msg)) \<longleftrightarrow>
      \<not> (\<exists>kvs v. js_get m ''engines'' = JObject kvs \<and> map_of kvs ''vscode'' = Some v))
   \<and> ((\<exists>msg. new_Package env m = Inl (TypeError msg)) \<longleftrightarrow>
      (\<exists>kvs v. js_get m ''engines'' = JObject kvs \<and> map_of kvs ''vscode'' = Some v)
      \<and> \<not> (\<exists>nm. js_get m ''name'' = JString nm))
   \<and> ((\<exists>p. new_Package env m = Inr p) \<longleftrightarrow>
      (\<exists>kvs v. js_get m ''engines'' = JObject kvs \<and> map_of kvs ''vscode'' = Some v)
      \<and> (\<exists>nm. js_get m ''name'' = JString nm))"
  by (subst (1 2 3) new_Package_cases) simp

theorem construction_outcome_witness:
  "(\<exists>p. new_Package local_env demo_manifest = Inr p)
   \<and> (\<exists>msg. new_Package local_env [(''name'', JString ''demo'')]
         = Inl (NotAnExtensionError msg))
   \<and> (\<exists>msg. new_Package local_env [(''engines'', engines_vscode)] = Inl (TypeError msg))"
  using construction_outcome [of local_env demo_manifest]
    construction_outcome [of local_env "[(''name'', JString ''demo'')]"]
    construction_outcome [of local_env "[(''engines'', engines_vscode)]"]
  by (simp add: js_get_def demo_manifest_def engines_vscode_def)

text \<open>
  C7. The version of a package is always a \<^verbatim>\<open>SemVer\<close> value, and a bad version string
  never makes construction fail: for every manifest that passes the two checks of the
  constructor a package is built; its version is the sentinel 0.0.0 when the manifest
  has no version string or one that \<^verbatim>\<open>parse\<close> rejects, and the parsed version
  otherwise.
\<close>

theorem version_sentinel:
  assumes "js_get m ''engines'' = JObject kvs" and "map_of kvs ''vscode'' = Some v"
    and "js_get m ''name'' = JString nm"
  shows "\<exists>p. new_Package env m = Inr p
     \<and> ((\<forall>s. js_get m ''version'' = JString s \<longrightarrow> parseVersion env s = None)
          \<longrightarrow> version p = SemVer_0_0_0)
     \<and> (\<forall>s ver. js_get m ''version'' = JString s \<and> parseVersion env s = Some ver
          \<longrightarrow> version p = ver)"
proof -
  obtain p where p: "new_Package env m = Inr p"
    using new_Package_ok [OF assms] by blast
  have v: "version p =
           (case js_get m ''version'' of
              JString s \<Rightarrow> nullish_or (parseVersion env s) SemVer_0_0_0
            | _ \<Rightarrow> SemVer_0_0_0)"
    by (rule new_Package_fields(5)[OF p])
  have "(\<forall>s. js_get m ''version'' = JString s \<longrightarrow> parseVersion env s = None)
          \<longrightarrow> version p = SemVer_0_0_0"
    unfolding v by (cases "js_get m ''version''") simp_all
  moreover have "\<forall>s ver. js_get m ''version'' = JString s \<and> parseVersion env s = Some ver
          \<longrightarrow> version p = ver"
    unfolding v by simp
  ultimately show ?thesis using p by blast
qed

theorem version_sentinel_witness:
  "(\<exists>p. new_Package local_env bad_version_manifest = Inr p \<and> version p = SemVer_0_0_0)
   \<and> (\<exists>p. new_Package local_env bare_manifest = Inr p \<and> version p = SemVer_0_0_0)
   \<and> (\<exists>p. new_Package local_env demo_manifest = Inr p \<and> version p = semver_1_10_0)"
proof -
  have e: "js_get bad_version_manifest ''engines'' = JObject [(''vscode'', JString ''^1.40.0'')]"
    by (simp add: js_get_def bad_version_manifest_def engines_vscode_def)
  have n: "js_get bad_version_manifest ''name'' = JString ''demo''"
    and n': "js_get bare_manifest ''name'' = JString ''demo''"
    and n'': "js_get demo_manifest ''name'' = JString ''demo''"
    by (simp_all add: js_get_def bad_version_manifest_def bare_manifest_def
        demo_manifest_def)
  have u: "\<forall>s. js_get bad_version_manifest ''version'' = JString s
             \<longrightarrow> parseVersion local_env s = None"
    by (simp add: js_get_def bad_version_manifest_def local_env_def example_parse_def)
  have u': "\<forall>s. js_get bare_manifest ''version'' = JString s
             \<longrightarrow> parseVersion local_env s = None"
    by (simp add: js_get_def bare_manifest_def)
  have v: "js_get demo_manifest ''version'' = JString ''1.10.0''
             \<and> parseVersion local_env ''1.10.0'' = Some semver_1_10_0"
    by (simp add: js_get_def demo_manifest_def local_env_def example_parse_def)
  show ?thesis
    using version_sentinel [OF e vscode_key n, of local_env] u
      version_sentinel [OF demo_engines(2) vscode_key n', of local_env] u'
      version_sentinel [OF demo_engines(1) vscode_key n'', of local_env] v
    by blast
qed



text \<open>
  C10. A manifest whose publisher is the empty string gives a package that is Invalid,
  whose error message is the missing-publisher one, and whose extension ID is a dot
  followed by the lower-cased name: the empty string is falsy for the validity check
  but, being a string, is not replaced by the placeholder.
\<close>

theorem empty_publisher_Invalid:
  assumes "new_Package env m = Inr p" and "js_get m ''publisher'' = JString []"
  shows "state p = Invalid
     \<and> errorMessage env p = localize env ''manifest.missing.publisher'' msg_missing_publisher
     \<and> js_get m ''name'' = JString (name p)
     \<and> extensionId p = ''.'' @ toLowerCase (name p)"
proof -
  have pub: "priv_publisher p = Some []"
    using new_Package_fields(2)[OF assms(1)] assms(2) by simp
  have "extensionId p = ''.'' @ toLowerCase (name p)"
    unfolding new_Package_fields(4)[OF assms(1)] pub
    by (simp add: toLowerCase_def toLowerCase_char_def)
  then show ?thesis
    using pub new_Package_fields(1)[OF assms(1)]
    by (simp add: state_def errorMessage_def)
qed

theorem empty_publisher_Invalid_witness:
  "\<exists>p. new_Package local_env empty_publisher_manifest = Inr p \<and> state p = Invalid
     \<and> errorMessage local_env p = msg_missing_publisher \<and> extensionId p = ''.demo''"
proof -
  obtain p where p: "new_Package local_env empty_publisher_manifest = Inr p"
    using example_packages(3) ..
  have e: "js_get empty_publisher_manifest ''publisher'' = JString []"
    by (simp add: js_get_def empty_publisher_manifest_def)
  have n: "name p = ''Demo''"
    using empty_publisher_Invalid [OF p e]
    by (simp add: js_get_def empty_publisher_manifest_def)
  have l: "toLowerCase ''Demo'' = ''demo''" by code_simp
  show ?thesis
    using empty_publisher_Invalid [OF p e] p n l by (simp add: local_env_def)
qed

subsection \<open>State and error message\<close>

text \<open>
  C9. The error message is non-empty only when the state is Invalid; and a package with
  neither a publisher nor a .vsix path gets the missing-publisher message.
\<close>

theorem errorMessage_implies_Invalid:
  "(errorMessage env p \<noteq> [] \<longrightarrow> state p = Invalid)
   \<and> (priv_publisher p = None \<and> vsixFile p = None \<longrightarrow>
        errorMessage env p = localize env ''manifest.missing.publisher'' msg_missing_publisher)"
  by (simp add: errorMessage_def state_def)

theorem errorMessage_implies_Invalid_witness:
  "\<exists>p. new_Package local_env bare_manifest = Inr p \<and> errorMessage local_env p \<noteq> []
     \<and> state p = Invalid \<and> errorMessage local_env p = msg_missing_publisher"
proof -
  obtain p where p: "new_Package local_env bare_manifest = Inr p"
    using example_packages(2) ..
  have pub: "priv_publisher p = None"
    unfolding new_Package_fields(2)[OF p] by (simp add: js_get_def bare_manifest_def)
  have vsix: "vsixFile p = None"
    unfolding new_Package_fields(3)[OF p]
    by (simp add: findVsixFile_def js_get_def bare_manifest_def)
  have msg: "errorMessage local_env p = msg_missing_publisher"
    using errorMessage_implies_Invalid [of local_env p] pub vsix
    by (simp add: local_env_def)
  then have ne: "errorMessage local_env p \<noteq> []"
    by (simp add: msg_missing_publisher_def)
  then have "state p = Invalid"
    using errorMessage_implies_Invalid [of local_env p] by simp
  then show ?thesis using p msg ne by simp
qed

text \<open>
  C4. A package built from a manifest without a publisher string, or whose
  \<^verbatim>\<open>files\<close> holds no string ending in \<^verbatim>\<open>.vsix\<close>, is Invalid after any sequence of
  \<^verbatim>\<open>updateState\<close> calls, whatever the lookups returned.
\<close>

theorem Invalid_is_permanent:
  assumes "new_Package env m = Inr p"
    and "(\<forall>s. js_get m ''publisher'' \<noteq> JString s)
       \<or> (\<forall>files s. js_get m ''files'' = JArray files \<longrightarrow> JString s \<in> set files
             \<longrightarrow> \<not> endsWith s ''.vsix'')"
  shows "state (foldl updateState p lookups) = Invalid"
proof -
  have "priv_publisher p = None \<or> vsixFile p = None"
    using assms(2)
  proof
    assume "\<forall>s. js_get m ''publisher'' \<noteq> JString s"
    then have "priv_publisher p = None"
      unfolding new_Package_fields(2)[OF assms(1)]
      by (cases "js_get m ''publisher''") simp_all
    then show ?thesis ..
  next
    assume "\<forall>files s. js_get m ''files'' = JArray files \<longrightarrow> JString s \<in> set files
             \<longrightarrow> \<not> endsWith s ''.vsix''"
    then have "vsixFile p = None"
      unfolding new_Package_fields(3)[OF assms(1)] by (rule findVsixFile_None)
    then show ?thesis ..
  qed
  then show ?thesis
    using foldl_updateState_fixed [of p lookups] by (auto simp: state_def)
qed

theorem Invalid_is_permanent_witness:
  "(\<exists>p. new_Package local_env bare_manifest = Inr p
      \<and> state (foldl updateState p [Some installed_1_9_0, None, Some installed_1_10_0])
          = Invalid)
   \<and> (\<exists>p. new_Package local_env no_vsix_manifest = Inr p
      \<and> state (foldl updateState p [Some installed_1_10_0]) = Invalid)"
proof -
  obtain p where p: "new_Package local_env bare_manifest = Inr p"
    using example_packages(2) ..
  have h: "(\<forall>s. js_get bare_manifest ''publisher'' \<noteq> JString s)
       \<or> (\<forall>files s. js_get bare_manifest ''files'' = JArray files \<longrightarrow> JString s \<in> set files
             \<longrightarrow> \<not> endsWith s ''.vsix'')"
    by (simp add: js_get_def bare_manifest_def)
  obtain q where q: "new_Package local_env no_vsix_manifest = Inr q"
    using example_packages(4) ..
  have h': "(\<forall>s. js_get no_vsix_manifest ''publisher'' \<noteq> JString s)
       \<or> (\<forall>files s. js_get no_vsix_manifest ''files'' = JArray files \<longrightarrow> JString s \<in> set files
             \<longrightarrow> \<not> endsWith s ''.vsix'')"
    by (auto simp: js_get_def no_vsix_manifest_def endsWith_def)
  show ?thesis
    using Invalid_is_permanent [OF p h, of "[Some installed_1_9_0, None, Some installed_1_10_0]"]
      Invalid_is_permanent [OF q h', of "[Some installed_1_10_0]"] p q
    by blast
qed

subsection \<open>Refreshing the snapshot\<close>

text \<open>
  C6. \<^verbatim>\<open>updateState\<close> writes the installed flag, the installed kind and the installed
  version together, all three from the lookup result on a hit and all three cleared on
  a miss, and leaves every other field as it was; and when an installed kind is
  recorded, the getter \<^verbatim>\<open>isUiExtension\<close> answers from it, not from the hint computed
  at construction.
\<close>

theorem updateState_frame:
  assumes "p' = updateState p r"
  shows "(case r of
            Some e \<Rightarrow> isInstalled p' \<and> priv_installedExtensionKind p' = ext_extensionKind e
                       \<and> installedVersion p' = Some (ext_version e)
          | None \<Rightarrow> \<not> isInstalled p' \<and> priv_installedExtensionKind p' = None
                       \<and> installedVersion p' = None)
     \<and> name p' = name p \<and> extensionId p' = extensionId p
     \<and> displayName p' = displayName p \<and> description p' = description p
     \<and> version p' = version p \<and> vsixFile p' = vsixFile p
     \<and> priv_publisher p' = priv_publisher p
     \<and> priv_isUiExtension p' = priv_isUiExtension p
     \<and> (\<forall>kind. priv_installedExtensionKind p' = Some kind \<longrightarrow>
           get_isUiExtension p' = (kind = UI))"
  unfolding assms
  by (cases r) (simp_all add: updateState_def isInstalled_def installedVersion_def
      get_isUiExtension_def)

theorem updateState_frame_witness:
  "\<exists>p. new_Package local_env demo_manifest = Inr p
     \<and> priv_isUiExtension p
     \<and> isInstalled (updateState p (Some installed_1_10_0))
     \<and> installedVersion (updateState p (Some installed_1_10_0)) = Some semver_1_10_0
     \<and> \<not> get_isUiExtension (updateState p (Some installed_1_10_0))
     \<and> extensionId (updateState p (Some installed_1_10_0)) = extensionId p
     \<and> \<not> isInstalled (updateState p None)
     \<and> installedVersion (updateState p None) = None"
proof -
  obtain p where p: "new_Package local_env demo_manifest = Inr p"
    using example_packages(1) ..
  have hint: "priv_isUiExtension p"
    unfolding new_Package_fields(9)[OF p] by (simp add: isUiExtension_def local_env_def)
  have k: "priv_installedExtensionKind (updateState p (Some installed_1_10_0)) = Some Workspace"
    using updateState_frame [of "updateState p (Some installed_1_10_0)" p "Some installed_1_10_0"]
    by (simp add: installed_1_10_0_def)
  show ?thesis
    using updateState_frame [of "updateState p (Some installed_1_10_0)" p "Some installed_1_10_0"]
      updateState_frame [of "updateState p None" p None] p hint k
    by (simp add: installed_1_10_0_def)
qed

subsection \<open>Host-kind classification\<close>

text \<open>
  C2. With no remote session the classification is UI, whatever the identity, the
  setting and the manifest are. In a remote session, for an identity in lower case (as
  the constructor passes it), the first entry of \<^verbatim>\<open>remote.extensionKind\<close> whose key
  equals the identity up to letter case decides the kind, whatever the manifest's
  \<^verbatim>\<open>extensionKind\<close> says: the value \<^verbatim>\<open>workspace\<close> classifies the extension as
  workspace, the value \<^verbatim>\<open>ui\<close> as UI. And a resolved kind of exactly \<^verbatim>\<open>ui\<close> is UI, one
  of exactly \<^verbatim>\<open>workspace\<close> is workspace.
\<close>

theorem host_kind_precedence:
  "(remoteName env = None \<longrightarrow> isUiExtension env extId m)
   \<and> (remoteName env \<noteq> None \<and> toLowerCase extId = extId
        \<and> remote_extensionKind env = pre @ (k, v) # post
        \<and> toLowerCase k = toLowerCase extId
        \<and> (\<forall>k'. k' \<in> fst ` set pre \<longrightarrow> toLowerCase k' \<noteq> toLowerCase extId)
      \<longrightarrow> getExtensionKind env extId m = Some v
          \<and> (v = ''workspace'' \<longrightarrow> \<not> isUiExtension env extId m)
          \<and> (v = ''ui'' \<longrightarrow> isUiExtension env extId m))
   \<and> (remoteName env \<noteq> None \<and> getExtensionKind env extId m = Some ''ui''
      \<longrightarrow> isUiExtension env extId m)
   \<and> (remoteName env \<noteq> None \<and> getExtensionKind env extId m = Some ''workspace''
      \<longrightarrow> \<not> isUiExtension env extId m)"
proof -
  have local: "remoteName env = None \<longrightarrow> isUiExtension env extId m"
    by (simp add: isUiExtension_def)
  have ui: "remoteName env \<noteq> None \<and> getExtensionKind env extId m = Some ''ui''
      \<longrightarrow> isUiExtension env extId m"
    by (simp add: isUiExtension_def)
  have ws: "remoteName env \<noteq> None \<and> getExtensionKind env extId m = Some ''workspace''
      \<longrightarrow> \<not> isUiExtension env extId m"
    by (simp add: isUiExtension_def)
  have override: "getExtensionKind env extId m = Some v"
    if "toLowerCase extId = extId" and "remote_extensionKind env = pre @ (k, v) # post"
      and "toLowerCase k = toLowerCase extId"
      and "\<forall>k'. k' \<in> fst ` set pre \<longrightarrow> toLowerCase k' \<noteq> toLowerCase extId"
  proof -
    have "find (\<lambda>key. toLowerCase key = extId) (map fst (remote_extensionKind env)) = Some k"
      and "map_of (remote_extensionKind env) k = Some v"
      using first_match [OF that(2), of "\<lambda>key. toLowerCase key = extId"] that(1,3,4)
      by simp_all
    then show ?thesis by (simp add: getExtensionKind_def)
  qed
  show ?thesis using local ui ws override by blast
qed

theorem host_kind_precedence_witness:
  "isUiExtension local_env ''acme.demo'' main_manifest
   \<and> getExtensionKind remote_env ''acme.demo'' ui_kind_manifest = Some ''workspace''
   \<and> \<not> isUiExtension remote_env ''acme.demo'' ui_kind_manifest
   \<and> isUiExtension plain_remote_env ''acme.demo'' ui_kind_manifest
   \<and> \<not> isUiExtension plain_remote_env ''acme.demo'' workspace_kind_manifest
   \<and> getExtensionKind ecole_remote_env (CHR 0xE9 # ''cole.demo'') workspace_kind_manifest
        = Some ''ui''
   \<and> isUiExtension ecole_remote_env (CHR 0xE9 # ''cole.demo'') workspace_kind_manifest"
proof -
  have l: "toLowerCase ''acme.demo'' = ''acme.demo''" by code_simp
  have u: "toLowerCase ''Acme.Demo'' = ''acme.demo''" by code_simp
  have r: "remoteName remote_env \<noteq> None"
    and c: "remote_extensionKind remote_env = [] @ (''Acme.Demo'', ''workspace'') # []"
    by (simp_all add: remote_env_def)
  have n: "remoteName local_env = None" by (simp add: local_env_def)
  have r': "remoteName plain_remote_env \<noteq> None" by (simp add: plain_remote_env_def)
  have k: "getExtensionKind plain_remote_env ''acme.demo'' ui_kind_manifest = Some ''ui''"
    and k': "getExtensionKind plain_remote_env ''acme.demo'' workspace_kind_manifest
               = Some ''workspace''"
    by (simp_all add: getExtensionKind_def plain_remote_env_def js_get_def
        ui_kind_manifest_def workspace_kind_manifest_def)
  have ascii: "isUiExtension local_env ''acme.demo'' main_manifest
   \<and> getExtensionKind remote_env ''acme.demo'' ui_kind_manifest = Some ''workspace''
   \<and> \<not> isUiExtension remote_env ''acme.demo'' ui_kind_manifest
   \<and> isUiExtension plain_remote_env ''acme.demo'' ui_kind_manifest
   \<and> \<not> isUiExtension plain_remote_env ''acme.demo'' workspace_kind_manifest"
    using host_kind_precedence [of local_env "''acme.demo''" main_manifest]
      host_kind_precedence [where env = remote_env and extId = "''acme.demo''"
        and m = ui_kind_manifest and pre = "[]" and k = "''Acme.Demo''"
        and v = "''workspace''" and post = "[]"]
      host_kind_precedence [of plain_remote_env "''acme.demo''" ui_kind_manifest]
      host_kind_precedence [of plain_remote_env "''acme.demo''" workspace_kind_manifest]
      l u r c n r' k k'
    by simp
  have r'': "remoteName ecole_remote_env \<noteq> None"
    and c'': "remote_extensionKind ecole_remote_env
      = [] @ (CHR 0xC9 # ''cole.demo'', ''ui'') # [(CHR 0xE9 # ''cole.demo'', ''workspace'')]"
    by (simp_all add: ecole_remote_env_def)
  have latin: "getExtensionKind ecole_remote_env (CHR 0xE9 # ''cole.demo'')
        workspace_kind_manifest = Some ''ui''
   \<and> isUiExtension ecole_remote_env (CHR 0xE9 # ''cole.demo'') workspace_kind_manifest"
    using host_kind_precedence [where env = ecole_remote_env
        and extId = "CHR 0xE9 # ''cole.demo''" and m = workspace_kind_manifest
        and pre = "[]" and k = "CHR 0xC9 # ''cole.demo''" and v = "''ui''"
        and post = "[(CHR 0xE9 # ''cole.demo'', ''workspace'')]"]
      toLowerCase_Latin1(3,4) r'' c''
    by simp
  show ?thesis using ascii latin by simp
qed

text \<open>
  C3, as the code has it. In a remote session, with no key of the setting matching the
  identity and no \<^verbatim>\<open>extensionKind\<close> string in the manifest, and with
  \<^verbatim>\<open>isNonEmptyArray\<close> true exactly of the arrays of non-zero length, the extension is
  UI exactly when \<^verbatim>\<open>main\<close> is falsy (absent, or the empty string, 0, false or null) and
  neither \<^verbatim>\<open>extensionDependencies\<close> nor \<^verbatim>\<open>extensionPack\<close> is a non-empty array;
  it is workspace otherwise. A zero-length array counts as an absent field.
\<close>

theorem heuristics_when_unresolved:
  assumes "remoteName env \<noteq> None"
    and "\<forall>k. k \<in> fst ` set (remote_extensionKind env) \<longrightarrow> toLowerCase k \<noteq> extId"
    and "\<forall>s. js_get m ''extensionKind'' \<noteq> JString s"
    and "\<forall>a. isNonEmptyArray env a \<longleftrightarrow> (\<exists>x xs. a = JArray (x # xs))"
  shows "isUiExtension env extId m \<longleftrightarrow>
           \<not> truthy (js_get m ''main'')
         \<and> \<not> (\<exists>x xs. js_get m ''extensionDependencies'' = JArray (x # xs))
         \<and> \<not> (\<exists>x xs. js_get m ''extensionPack'' = JArray (x # xs))"
proof -
  have "find (\<lambda>key. toLowerCase key = extId) (map fst (remote_extensionKind env)) = None"
    using no_match [of "remote_extensionKind env" "\<lambda>key. toLowerCase key = extId"] assms(2)
    by simp
  then have kind: "getExtensionKind env extId m = None"
    using assms(3) unfolding getExtensionKind_def
    by (cases "js_get m ''extensionKind''") simp_all
  show ?thesis
    using assms(1,4) kind by (auto simp: isUiExtension_def)
qed

theorem heuristics_when_unresolved_witness:
  "\<not> isUiExtension plain_remote_env ''acme.demo'' main_manifest
   \<and> isUiExtension plain_remote_env ''acme.demo'' empty_lists_manifest"
proof -
  have r: "remoteName plain_remote_env \<noteq> None"
    and c: "\<forall>k. k \<in> fst ` set (remote_extensionKind plain_remote_env) \<longrightarrow>
              toLowerCase k \<noteq> ''acme.demo''"
    by (simp_all add: plain_remote_env_def)
  have a: "\<forall>a. isNonEmptyArray plain_remote_env a \<longleftrightarrow> (\<exists>x xs. a = JArray (x # xs))"
  proof
    fix a show "isNonEmptyArray plain_remote_env a \<longleftrightarrow> (\<exists>x xs. a = JArray (x # xs))"
      by (cases a) (auto simp: plain_remote_env_def neq_Nil_conv)
  qed
  have k: "\<forall>s. js_get main_manifest ''extensionKind'' \<noteq> JString s"
    and k': "\<forall>s. js_get empty_lists_manifest ''extensionKind'' \<noteq> JString s"
    by (simp_all add: js_get_def main_manifest_def empty_lists_manifest_def)
  show ?thesis
    using heuristics_when_unresolved [OF r c k a] heuristics_when_unresolved [OF r c k' a]
    by (simp add: js_get_def main_manifest_def empty_lists_manifest_def)
qed

text \<open>
  C3, as the claim has it, fails: the manifest \<^verbatim>\<open>{"main": ""}\<close> has the field
  \<^verbatim>\<open>main\<close>, no kind is resolved for it in a remote session, and it is classified UI,
  because the source tests \<^verbatim>\<open>manifest.main\<close> for truthiness.
\<close>

theorem main_present_but_UI:
  "remoteName plain_remote_env \<noteq> None
   \<and> getExtensionKind plain_remote_env ''acme.demo'' empty_main_manifest = None
   \<and> map_of empty_main_manifest ''main'' = Some (JString [])
   \<and> isUiExtension plain_remote_env ''acme.demo'' empty_main_manifest"
  by (simp add: plain_remote_env_def getExtensionKind_def isUiExtension_def js_get_def
      empty_main_manifest_def)

subsection \<open>The comparison of versions\<close>

text \<open>
  What \<^verbatim>\<open>state\<close> computes for a package with a truthy publisher and .vsix path: an
  update is available when an installed version is recorded and its version string is
  below the package's in the order of strings.
\<close>

lemma state_resolution:
  assumes "truthy_string (priv_publisher p)" and "truthy_string (vsixFile p)"
  shows "state p =
     (if \<exists>installed. installedVersion p = Some installed
            \<and> js_string_less (version_string installed) (version_string (version p))
      then UpdateAvailable
      else if isInstalled p then (if get_isUiExtension p then Installed else InstalledRemote)
      else Available)"
  using assms
  by (cases "installedVersion p")
    (simp_all add: state_def isUpdateAvailable_def js_greater_def toString_def)

lemma equal_version_no_update:
  assumes "installedVersion p = Some installed"
    and "version_string installed = version_string (version p)"
  shows "state p \<noteq> UpdateAvailable"
  using assms
  by (simp add: state_def isUpdateAvailable_def js_greater_def toString_def
      js_string_less_irrefl)

text \<open>
  C1. The claim orders versions by semantic-version precedence, and the doc comment of
  \<^verbatim>\<open>isUpdateAvailable\<close> speaks of a newer version; the source compares the two
  \<^verbatim>\<open>SemVer\<close> objects with \<^verbatim>\<open>>\<close>, which compares their version strings. The package
  1.10.0 with 1.9.0 installed is reported Installed, though 1.9.0 precedes 1.10.0;
  and the package 1.9.0 with 1.10.0 installed is reported UpdateAvailable.
\<close>

theorem update_decided_by_string_order:
  "(\<exists>p. new_Package local_env demo_manifest = Inr p
      \<and> version p = semver_1_10_0
      \<and> spec_version_less semver_1_9_0 semver_1_10_0
      \<and> installedVersion (updateState p (Some installed_1_9_0)) = Some semver_1_9_0
      \<and> state (updateState p (Some installed_1_9_0)) = Installed)
   \<and> (\<exists>p. new_Package local_env older_manifest = Inr p
      \<and> version p = semver_1_9_0
      \<and> installedVersion (updateState p (Some installed_1_10_0)) = Some semver_1_10_0
      \<and> state (updateState p (Some installed_1_10_0)) = UpdateAvailable)"
proof -
  obtain p where p: "new_Package local_env demo_manifest = Inr p"
    using example_packages(1) ..
  obtain q where q: "new_Package local_env older_manifest = Inr q"
    using example_packages(5) ..
  have pf: "priv_publisher p = Some ''Acme''" "vsixFile p = Some ''demo.vsix''"
    "version p = semver_1_10_0"
    unfolding new_Package_fields(2,3,5)[OF p]
    by (simp_all add: js_get_def demo_manifest_def findVsixFile_def endsWith_def
        local_env_def example_parse_def)
  have qf: "priv_publisher q = Some ''Acme''" "vsixFile q = Some ''demo.vsix''"
    "version q = semver_1_9_0"
    unfolding new_Package_fields(2,3,5)[OF q]
    by (simp_all add: js_get_def older_manifest_def findVsixFile_def endsWith_def
        local_env_def example_parse_def)
  have less: "spec_version_less semver_1_9_0 semver_1_10_0"
    by (simp add: spec_version_less_def semver_1_9_0_def semver_1_10_0_def)
  have s1: "\<not> js_string_less ''1.9.0'' ''1.10.0''" and s2: "js_string_less ''1.10.0'' ''1.9.0''"
    by simp_all
  have ps: "state (updateState p (Some installed_1_9_0)) = Installed"
    using pf s1
    by (simp add: state_def isUpdateAvailable_def installedVersion_def isInstalled_def
        get_isUiExtension_def updateState_def installed_1_9_0_def js_greater_def
        toString_def semver_1_9_0_def semver_1_10_0_def)
  have qs: "state (updateState q (Some installed_1_10_0)) = UpdateAvailable"
    using qf s2
    by (simp add: state_def isUpdateAvailable_def installedVersion_def isInstalled_def
        get_isUiExtension_def updateState_def installed_1_10_0_def js_greater_def
        toString_def semver_1_9_0_def semver_1_10_0_def)
  have pi: "installedVersion (updateState p (Some installed_1_9_0)) = Some semver_1_9_0"
    and qi: "installedVersion (updateState q (Some installed_1_10_0)) = Some semver_1_10_0"
    by (simp_all add: installedVersion_def updateState_def installed_1_9_0_def
        installed_1_10_0_def)
  show ?thesis using p q pf(3) qf(3) less ps qs pi qi by simp
qed

theorem update_decided_by_string_order_witness:
  "\<exists>p. new_Package local_env demo_manifest = Inr p
      \<and> state (updateState p (Some installed_1_9_0)) \<noteq> UpdateAvailable"
  using update_decided_by_string_order by auto

end
